theory Spec2Isabelle
  imports Main "HOL-Library.Word"
begin

section \<open>MITAB: mapping generic field definitions to native field types\<close>

text \<open>
  The embedding follows \<^verbatim>\<open>mitab_imapinfofile.cpp\<close>. The width and the precision of a
  field are C \<^verbatim>\<open>int\<close> values: they are 32-bit words read as two's complement, so that
  \<open><s\<close> is the comparison of the source, \<open>sint\<close> gives the value, and the subtractions
  \<^verbatim>\<open>nWidth - nPrecision\<close> and \<^verbatim>\<open>nWidth - 2\<close> wrap around. Return codes and error codes, on
  which the code does no arithmetic, are of type \<^typ>\<open>int\<close>.
\<close>

type_synonym c_int = "32 word"

text \<open>
  Modelled from the spec: the enum \<^verbatim>\<open>OGRFieldType\<close> is declared in \<^verbatim>\<open>ogr_core.h\<close>, which is
  not among the sources. The constructors are the semantic types the data model lists;
  \<open>OFTOther c\<close> stands for any further value \<open>c\<close> of the enum.
\<close>

datatype OGRFieldType =
    OFTInteger | OFTReal | OFTString | OFTDate | OFTTime | OFTDateTime
  | OFTStringList | OFTIntegerList | OFTRealList
  | OFTOther int

text \<open>
  Modelled from the spec: the enum \<^verbatim>\<open>TABFieldType\<close> is declared in \<^verbatim>\<open>mitab.h\<close>, which is not
  among the sources. The constructors are the native types \<^verbatim>\<open>GetTABType\<close> assigns.
\<close>

datatype TABFieldType =
    TABFInteger | TABFFloat | TABFDecimal | TABFDate | TABFTime | TABFDateTime | TABFChar

text \<open>The part of \<^verbatim>\<open>OGRFieldDefn\<close> that the mapper reads through its accessors.\<close>

record OGRFieldDefn =
  fd_name :: string
  fd_type :: OGRFieldType
  fd_width :: c_int
  fd_precision :: c_int

text \<open>
  The three output parameters \<^verbatim>\<open>peTABType\<close>, \<^verbatim>\<open>pnWidth\<close>, \<^verbatim>\<open>pnPrecision\<close> are
  a triple of cells that the function receives and returns; the cell of the native type
  holds \<open>None\<close> while it is uninitialised.
\<close>

type_synonym tab_outputs = "TABFieldType option \<times> c_int \<times> c_int"

definition OGRERR_NONE :: int where "OGRERR_NONE = 0"
definition OGRERR_FAILURE :: int where "OGRERR_FAILURE = 6"

definition GetTABType :: "OGRFieldDefn \<Rightarrow> tab_outputs \<Rightarrow> int \<times> tab_outputs" where
  "GetTABType poField outs =
    (let nWidth = fd_width poField;
         nPrecision = fd_precision poField
     in
       if fd_type poField = OFTInteger then
         (0, (Some TABFInteger, (if nWidth = 0 then 12 else nWidth), nPrecision))
       else if fd_type poField = OFTReal then
         (if nWidth = 0 \<and> fd_precision poField = 0 then
            (0, (Some TABFFloat, 32, nPrecision))
          else if 20 <s nWidth \<or> nWidth - nPrecision <s 2 \<or> 16 <s nPrecision then
            (let nWidth = (if 20 <s nWidth then 20 else nWidth);
                 nPrecision = (if nWidth - nPrecision <s 2 then nWidth - 2 else nPrecision);
                 nPrecision = (if 16 <s nPrecision then 16 else nPrecision)
             in (0, (Some TABFDecimal, nWidth, nPrecision)))
          else
            (0, (Some TABFDecimal, nWidth, nPrecision)))
       else if fd_type poField = OFTDate then
         (0, (Some TABFDate, (if nWidth = 0 then 10 else nWidth), nPrecision))
       else if fd_type poField = OFTTime then
         (0, (Some TABFTime, (if nWidth = 0 then 9 else nWidth), nPrecision))
       else if fd_type poField = OFTDateTime then
         (0, (Some TABFDateTime, (if nWidth = 0 then 19 else nWidth), nPrecision))
       else if fd_type poField = OFTString then
         (0, (Some TABFChar,
              (if nWidth = 0 then 254 else (if nWidth <s 254 then nWidth else 254)),
              nPrecision))
       else
         (- 1, outs))"

text \<open>
  \<^verbatim>\<open>AddFieldNative\<close> is a pure virtual method implemented by the file classes; it is a
  parameter of the model: from the state of the file and its arguments it gives the
  returned code and the new state.
\<close>

type_synonym 's add_field_native =
  "'s \<Rightarrow> string \<Rightarrow> TABFieldType option \<Rightarrow> c_int \<Rightarrow> c_int \<Rightarrow> bool \<Rightarrow> bool \<Rightarrow> int \<Rightarrow> int \<times> 's"

definition CreateField :: "'s add_field_native \<Rightarrow> OGRFieldDefn \<Rightarrow> int \<Rightarrow> 's \<Rightarrow> int \<times> 's" where
  "CreateField AddFieldNative poField bApproxOK s =
    (case GetTABType poField (None, 0, 0) of
       (rc, (eTABType, nWidth, nPrecision)) \<Rightarrow>
         if rc < 0 then (OGRERR_FAILURE, s)
         else
           (case AddFieldNative s (fd_name poField) eTABType nWidth nPrecision False False bApproxOK of
              (r, s') \<Rightarrow> if r > - 1 then (OGRERR_NONE, s') else (OGRERR_FAILURE, s')))"




section \<open>MITAB: creating native features from generic features\<close>

text \<open>
  Modelled from the spec: the enum \<^verbatim>\<open>OGRwkbGeometryType\<close> is declared in \<^verbatim>\<open>ogr_core.h\<close>,
  which is not among the sources. The constructors are the flattened geometry types the
  two source files name; \<open>wkbOtherType c\<close> stands for any further value \<open>c\<close>.
\<close>

datatype OGRwkbGeometryType =
    wkbUnknown | wkbPoint | wkbLineString | wkbPolygon
  | wkbMultiPoint | wkbMultiLineString | wkbMultiPolygon | wkbGeometryCollection
  | wkbNone | wkbOtherType int

text \<open>
  A geometry object: one constructor for each geometry class the dispatch tells apart.
  The type \<open>'c\<close> is the coordinate data of a geometry, which the code never inspects. A
  multi-point and a geometry collection hold their children in enumeration order
  (\<^verbatim>\<open>OGRMultiPoint\<close> is a subclass of \<^verbatim>\<open>OGRGeometryCollection\<close>).
\<close>

datatype 'c OGRGeometry =
    OGRPoint 'c
  | OGRLineString 'c
  | OGRPolygon 'c
  | OGRMultiPoint "'c OGRGeometry list"
  | OGRMultiLineString 'c
  | OGRMultiPolygon 'c
  | OGRGeometryCollection "'c OGRGeometry list"
  | OGROtherGeometry int 'c

text \<open>\<^verbatim>\<open>wkbFlatten(poGeom->getGeometryType())\<close>: the flattened type tag of a geometry.\<close>

fun getGeometryType :: "'c OGRGeometry \<Rightarrow> OGRwkbGeometryType" where
  "getGeometryType (OGRPoint c) = wkbPoint"
| "getGeometryType (OGRLineString c) = wkbLineString"
| "getGeometryType (OGRPolygon c) = wkbPolygon"
| "getGeometryType (OGRMultiPoint cs) = wkbMultiPoint"
| "getGeometryType (OGRMultiLineString c) = wkbMultiLineString"
| "getGeometryType (OGRMultiPolygon c) = wkbMultiPolygon"
| "getGeometryType (OGRGeometryCollection cs) = wkbGeometryCollection"
| "getGeometryType (OGROtherGeometry k c) = wkbOtherType k"

text \<open>
  The children of a collection: \<^verbatim>\<open>getNumGeometries()\<close> is the length of this list and
  \<^verbatim>\<open>getGeometryRef(i)\<close> its \<open>i\<close>-th element.
\<close>

fun getGeometries :: "'c OGRGeometry \<Rightarrow> 'c OGRGeometry list" where
  "getGeometries (OGRMultiPoint cs) = cs"
| "getGeometries (OGRGeometryCollection cs) = cs"
| "getGeometries g = []"

definition OGRNullFID :: int where "OGRNullFID = - 1"

text \<open>
  A generic feature: its FID, its optional geometry, its raw field values in the order of
  the feature definition (of some type \<open>'f\<close>), and its optional style string.
\<close>

record ('c, 'f) OGRFeature =
  f_fid :: int
  f_geometry :: "'c OGRGeometry option"
  f_fields :: "'f list"
  f_style :: "string option"

text \<open>
  A native feature: the class it was instantiated as, the style strings from which its
  symbol, pen and brush were set (\<open>None\<close> when the setter was not called), its geometry,
  field values and FID.
\<close>

datatype TABFeatureClass = TABFeatureBase | TABPoint | TABRegion | TABPolyline

record ('c, 'f) TABFeature =
  tab_class :: TABFeatureClass
  tab_symbol :: "string option"
  tab_pen :: "string option"
  tab_brush :: "string option"
  tab_geometry :: "'c OGRGeometry option"
  tab_fields :: "'f list"
  tab_fid :: int

text \<open>
  \<^verbatim>\<open>CreateFeature(TABFeature*)\<close> is the pure virtual method that persists a native feature.
  It is a parameter of the model: from the state of the file and the native feature it
  gives the returned \<^verbatim>\<open>OGRErr\<close>, the native feature as the call leaves it (with the FID
  it assigned) and the new state.
\<close>

type_synonym ('c, 'f, 's) create_native =
  "'s \<Rightarrow> ('c, 'f) TABFeature \<Rightarrow> int \<times> ('c, 'f) TABFeature \<times> 's"

text \<open>A freshly constructed native feature of a class: nothing set, FID unassigned.\<close>

definition new_TABFeature :: "TABFeatureClass \<Rightarrow> ('c, 'f) TABFeature" where
  "new_TABFeature k =
     \<lparr>tab_class = k, tab_symbol = None, tab_pen = None, tab_brush = None,
      tab_geometry = None, tab_fields = [], tab_fid = OGRNullFID\<rparr>"

definition SetSymbolFromStyleString :: "string \<Rightarrow> ('c, 'f) TABFeature \<Rightarrow> ('c, 'f) TABFeature" where
  "SetSymbolFromStyleString st t = t\<lparr>tab_symbol := Some st\<rparr>"

definition SetPenFromStyleString :: "string \<Rightarrow> ('c, 'f) TABFeature \<Rightarrow> ('c, 'f) TABFeature" where
  "SetPenFromStyleString st t = t\<lparr>tab_pen := Some st\<rparr>"

definition SetBrushFromStyleString :: "string \<Rightarrow> ('c, 'f) TABFeature \<Rightarrow> ('c, 'f) TABFeature" where
  "SetBrushFromStyleString st t = t\<lparr>tab_brush := Some st\<rparr>"

text \<open>
  The end of \<^verbatim>\<open>CreateTABFeature\<close>, shared by every class that is instantiated: the
  geometry is cloned when there is one, every field is copied by index, the FID is copied.
\<close>

definition finish_TABFeature ::
  "('c, 'f) OGRFeature \<Rightarrow> ('c, 'f) TABFeature \<Rightarrow> ('c, 'f) TABFeature" where
  "finish_TABFeature poFeature poTABFeature =
     (let t1 = (case f_geometry poFeature of
                  Some poGeom \<Rightarrow> poTABFeature\<lparr>tab_geometry := Some poGeom\<rparr>
                | None \<Rightarrow> poTABFeature);
          t2 = t1\<lparr>tab_fields := f_fields poFeature\<rparr>
      in t2\<lparr>tab_fid := f_fid poFeature\<rparr>)"

text \<open>
  \<^verbatim>\<open>CreateTABFeature\<close> and \<^verbatim>\<open>ICreateFeature\<close> call each other; the third function is the
  \<^verbatim>\<open>for\<close> loop of the collection case, with the loop variables \<open>i\<close>, \<open>eStatus\<close>
  and the temporary feature as arguments. \<^verbatim>\<open>CreateTABFeature\<close> returns \<open>None\<close> for the
  null pointer. \<^verbatim>\<open>ICreateFeature\<close> returns the error code together with the generic
  feature, whose FID it may have set.
\<close>

function
  CreateTABFeature ::
    "('c, 'f, 's) create_native \<Rightarrow> ('c, 'f) OGRFeature \<Rightarrow> 's \<Rightarrow> ('c, 'f) TABFeature option \<times> 's"
and ICreateFeature ::
    "('c, 'f, 's) create_native \<Rightarrow> ('c, 'f) OGRFeature \<Rightarrow> 's \<Rightarrow> int \<times> ('c, 'f) OGRFeature \<times> 's"
and decompose ::
    "('c, 'f, 's) create_native \<Rightarrow> 'c OGRGeometry list \<Rightarrow> nat \<Rightarrow> int \<Rightarrow> ('c, 'f) OGRFeature \<Rightarrow> 's \<Rightarrow>
     int \<times> ('c, 'f) OGRFeature \<times> 's"
where
  "CreateTABFeature CreateFeature poFeature s =
     (let eGType = (case f_geometry poFeature of
                      Some poGeom \<Rightarrow> getGeometryType poGeom
                    | None \<Rightarrow> wkbNone)
      in
        if eGType = wkbPoint then
          (Some (finish_TABFeature poFeature
                   (case f_style poFeature of
                      Some st \<Rightarrow> SetSymbolFromStyleString st (new_TABFeature TABPoint)
                    | None \<Rightarrow> new_TABFeature TABPoint)), s)
        else if eGType = wkbPolygon \<or> eGType = wkbMultiPolygon then
          (Some (finish_TABFeature poFeature
                   (case f_style poFeature of
                      Some st \<Rightarrow>
                        SetBrushFromStyleString st (SetPenFromStyleString st (new_TABFeature TABRegion))
                    | None \<Rightarrow> new_TABFeature TABRegion)), s)
        else if eGType = wkbLineString \<or> eGType = wkbMultiLineString then
          (Some (finish_TABFeature poFeature
                   (case f_style poFeature of
                      Some st \<Rightarrow> SetPenFromStyleString st (new_TABFeature TABPolyline)
                    | None \<Rightarrow> new_TABFeature TABPolyline)), s)
        else if eGType = wkbGeometryCollection \<or> eGType = wkbMultiPoint then
          (case f_geometry poFeature of
             Some poColl \<Rightarrow>
               (case decompose CreateFeature (getGeometries poColl) 0 OGRERR_NONE poFeature s of
                  (eStatus, poTmpFeature, s') \<Rightarrow> (None, s'))
           | None \<Rightarrow> (None, s))
        else
          (Some (finish_TABFeature poFeature (new_TABFeature TABFeatureBase)), s))"
| "ICreateFeature CreateFeature poFeature s =
     (case CreateTABFeature CreateFeature poFeature s of
        (None, s') \<Rightarrow> (OGRERR_NONE, poFeature, s')
      | (Some poTABFeature, s') \<Rightarrow>
          (case CreateFeature s' poTABFeature of
             (eErr, poTABFeature', s'') \<Rightarrow>
               (eErr,
                (if eErr = OGRERR_NONE then poFeature\<lparr>f_fid := tab_fid poTABFeature'\<rparr>
                 else poFeature),
                s'')))"
| "decompose CreateFeature poColl i eStatus poTmpFeature s =
     (if eStatus = OGRERR_NONE \<and> i < length poColl then
        (case ICreateFeature CreateFeature
                (poTmpFeature\<lparr>f_fid := OGRNullFID, f_geometry := Some (poColl ! i)\<rparr>) s of
           (eStatus', poTmpFeature', s') \<Rightarrow>
             decompose CreateFeature poColl (i + 1) eStatus' poTmpFeature' s')
      else (eStatus, poTmpFeature, s))"
  by pat_completeness auto

termination
  apply (relation "measure (\<lambda>x. case x of
            Inl (c, f, s) \<Rightarrow> 2 * (case f_geometry f of None \<Rightarrow> 0 | Some g \<Rightarrow> size g)
          | Inr (Inl (c, f, s)) \<Rightarrow> 2 * (case f_geometry f of None \<Rightarrow> 0 | Some g \<Rightarrow> size g) + 1
          | Inr (Inr (c, cs, i, e, f, s)) \<Rightarrow> 2 * size_list size (drop i cs))")
  apply simp_all
  subgoal for poFeature x x2 by (cases x2) auto
  subgoal for poColl i by (simp add: Cons_nth_drop_Suc [symmetric])
  subgoal for CreateFeature poColl i by (simp add: Cons_nth_drop_Suc [symmetric])
  done

declare CreateTABFeature.simps [simp del] ICreateFeature.simps [simp del] decompose.simps [simp del]

text \<open>
  A persistence method that keeps, beside the state of the file, the list of the native
  features submitted to it, in the order of submission.
\<close>

definition recording ::
  "('c, 'f, 's) create_native \<Rightarrow> ('c, 'f, ('c, 'f) TABFeature list \<times> 's) create_native" where
  "recording CreateFeature =
     (\<lambda>(submitted, s) t.
        case CreateFeature s t of (e, t', s') \<Rightarrow> (e, t', (submitted @ [t], s')))"

text \<open>
  The persistence calls of a run succeed: the method is called on the native features of
  a list in order, each call in the state the call before it has left, and every call
  returns \<^verbatim>\<open>OGRERR_NONE\<close>.
\<close>

fun calls_succeed :: "('c, 'f, 's) create_native \<Rightarrow> ('c, 'f) TABFeature list \<Rightarrow> 's \<Rightarrow> bool" where
  "calls_succeed CreateFeature [] s = True"
| "calls_succeed CreateFeature (t # ts) s =
     (case CreateFeature s t of
        (e, t', s') \<Rightarrow> e = OGRERR_NONE \<and> calls_succeed CreateFeature ts s')"

text \<open>
  The native feature expected for one child point \<open>c\<close> of a feature: a point feature with
  the fields and style of the feature and no FID.
\<close>

definition point_TABFeature :: "('c, 'f) OGRFeature \<Rightarrow> 'c \<Rightarrow> ('c, 'f) TABFeature" where
  "point_TABFeature poFeature c =
     \<lparr>tab_class = TABPoint, tab_symbol = f_style poFeature, tab_pen = None, tab_brush = None,
      tab_geometry = Some (OGRPoint c), tab_fields = f_fields poFeature, tab_fid = OGRNullFID\<rparr>"

section \<open>NAS: case-insensitive string comparison\<close>

text \<open>
  Modelled from the spec: the macros \<^verbatim>\<open>EQUAL\<close>, \<^verbatim>\<open>EQUALN\<close> and \<^verbatim>\<open>STARTS_WITH_CI\<close> are
  defined in \<^verbatim>\<open>cpl_port.h\<close>, which is not among the sources. They are the comparisons the
  spec calls case-insensitive: equality of two strings, equality of their first \<open>n\<close>
  characters, and the test that a string starts with a prefix, all after folding the
  ASCII capital letters to small letters.
\<close>

definition tolower :: "char \<Rightarrow> char" where
  "tolower c =
     (case map_of (zip ''ABCDEFGHIJKLMNOPQRSTUVWXYZ'' ''abcdefghijklmnopqrstuvwxyz'') c of
        Some l \<Rightarrow> l
      | None \<Rightarrow> c)"

definition EQUAL :: "string \<Rightarrow> string \<Rightarrow> bool" where
  "EQUAL a b = (map tolower a = map tolower b)"

definition EQUALN :: "string \<Rightarrow> string \<Rightarrow> nat \<Rightarrow> bool" where
  "EQUALN a b n = (map tolower (take n a) = map tolower (take n b))"

definition STARTS_WITH_CI :: "string \<Rightarrow> string \<Rightarrow> bool" where
  "STARTS_WITH_CI a b = EQUALN a b (length b)"

text \<open>
  \<^verbatim>\<open>strrchr\<close>: the rest of the string from the last occurrence of the character on, or
  \<open>None\<close> (the null pointer) when the character does not occur.
\<close>

fun strrchr :: "string \<Rightarrow> char \<Rightarrow> string option" where
  "strrchr [] c = None"
| "strrchr (x # xs) c =
     (case strrchr xs c of
        Some r \<Rightarrow> Some r
      | None \<Rightarrow> if x = c then Some (x # xs) else None)"

section \<open>NAS: translating feature classes into layers\<close>

text \<open>
  Modelled from the spec: the enum \<^verbatim>\<open>GMLPropertyType\<close> is declared in \<^verbatim>\<open>gmlreader.h\<close>,
  which is not among the sources. The constructors are the property types the translation
  tells apart; \<open>GMLPT_Other c\<close> stands for any further value \<open>c\<close>.
\<close>

datatype GMLPropertyType =
    GMLPT_Untyped | GMLPT_String | GMLPT_Integer | GMLPT_Real
  | GMLPT_StringList | GMLPT_IntegerList | GMLPT_RealList
  | GMLPT_Other int

record GMLPropertyDefn =
  pd_name :: string
  pd_type :: GMLPropertyType
  pd_width :: c_int

text \<open>
  A feature class as the translation reads it: its name, the declared types of its
  geometry properties (in order), its properties, its SRS name (\<open>None\<close> for the null
  pointer) and its feature count.
\<close>

record GMLFeatureClass =
  fc_name :: string
  fc_geometry_properties :: "OGRwkbGeometryType list"
  fc_properties :: "GMLPropertyDefn list"
  fc_srs_name :: "string option"
  fc_feature_count :: int

text \<open>
  A layer: the arguments its constructor was given (name, spatial reference, geometry
  type) and the field definitions added to its definition. The constructor is not among
  the sources; the name of the layer is taken to be the name it was given. The type
  \<open>'srs\<close> is that of spatial-reference objects.
\<close>

record 'srs OGRNASLayer =
  lyr_name :: string
  lyr_srs :: "'srs option"
  lyr_gtype :: OGRwkbGeometryType
  lyr_fields :: "OGRFieldDefn list"

text \<open>The table of URN names: pairs of a target and the SRS name it stands for.\<close>

definition apszURNNames :: "(string \<times> string) list" where
  "apszURNNames =
     [(''DE_DHDN_3GK2_*'', ''EPSG:31466''),
      (''DE_DHDN_3GK3_*'', ''EPSG:31467''),
      (''ETRS89_UTM32'', ''EPSG:25832''),
      (''ETRS89_UTM33'', ''EPSG:25833'')]"

text \<open>
  The loop over the table: every entry is compared with the handle, and an entry that
  matches replaces the SRS name (the loop has no \<^verbatim>\<open>break\<close>). The targets of the table are
  not empty, so that the last character \<^verbatim>\<open>pszTarget[nTLen-1]\<close> exists.
\<close>

fun urn_loop :: "(string \<times> string) list \<Rightarrow> string \<Rightarrow> string \<Rightarrow> string" where
  "urn_loop [] pszHandle pszSRSName = pszSRSName"
| "urn_loop ((pszTarget, code) # rest) pszHandle pszSRSName =
     (let nTLen = length pszTarget
      in urn_loop rest pszHandle
           (if pszTarget \<noteq> [] \<and> last pszTarget = CHR ''*'' then
              (if EQUALN pszTarget pszHandle (nTLen - 1) then code else pszSRSName)
            else
              (if EQUAL pszTarget pszHandle then code else pszSRSName)))"

text \<open>
  The mapping of the property types to field types, and the field definition made for
  one property: the prefix \<^verbatim>\<open>ogr:\<close> is cut from the name, a positive width is kept.
\<close>

definition translate_property_type :: "GMLPropertyType \<Rightarrow> OGRFieldType" where
  "translate_property_type t =
     (if t = GMLPT_Untyped then OFTString
      else if t = GMLPT_String then OFTString
      else if t = GMLPT_Integer then OFTInteger
      else if t = GMLPT_Real then OFTReal
      else if t = GMLPT_StringList then OFTStringList
      else if t = GMLPT_IntegerList then OFTIntegerList
      else if t = GMLPT_RealList then OFTRealList
      else OFTString)"

definition translate_property :: "GMLPropertyDefn \<Rightarrow> OGRFieldDefn" where
  "translate_property poProperty =
     (let eFType = translate_property_type (pd_type poProperty);
          oField = \<lparr>fd_name = pd_name poProperty, fd_type = eFType, fd_width = 0, fd_precision = 0\<rparr>;
          oField = (if STARTS_WITH_CI (fd_name oField) ''ogr:''
                    then oField\<lparr>fd_name := drop 4 (pd_name poProperty)\<rparr> else oField);
          oField = (if 0 <s pd_width poProperty
                    then oField\<lparr>fd_width := pd_width poProperty\<rparr> else oField)
      in oField)"

text \<open>
  \<^verbatim>\<open>OGRSpatialReference::SetFromUserInput\<close> belongs to the host library; it is a parameter
  of the model, giving the spatial-reference object built from a string, or \<open>None\<close> when
  it does not return \<^verbatim>\<open>OGRERR_NONE\<close>.
\<close>

definition TranslateNASSchema ::
  "(string \<Rightarrow> 'srs option) \<Rightarrow> GMLFeatureClass \<Rightarrow> 'srs OGRNASLayer" where
  "TranslateNASSchema SetFromUserInput poClass =
     (let eGType =
            (if fc_geometry_properties poClass \<noteq> [] then
               (if fc_feature_count poClass = 0 then wkbUnknown
                else hd (fc_geometry_properties poClass))
             else wkbNone);
          poSRS =
            (case fc_srs_name poClass of
               None \<Rightarrow> None
             | Some pszSRSName \<Rightarrow>
                 (case strrchr pszSRSName CHR '':'' of
                    None \<Rightarrow> None
                  | Some p \<Rightarrow>
                      (let pszHandle = tl p
                       in SetFromUserInput (urn_loop apszURNNames pszHandle pszSRSName))))
      in \<lparr>lyr_name = fc_name poClass, lyr_srs = poSRS, lyr_gtype = eGType,
          lyr_fields = map translate_property (fc_properties poClass)\<rparr>)"

text \<open>The test the loop over the table applies to one target and the handle.\<close>

definition urn_matches :: "string \<Rightarrow> string \<Rightarrow> bool" where
  "urn_matches pszTarget pszHandle =
     (if pszTarget \<noteq> [] \<and> last pszTarget = CHR ''*''
      then EQUALN pszTarget pszHandle (length pszTarget - 1)
      else EQUAL pszTarget pszHandle)"

section \<open>NAS: opening a data source\<close>

text \<open>
  The ways in which the operations of the data source fail: the two places where
  \<^verbatim>\<open>Open\<close> returns \<^verbatim>\<open>FALSE\<close>, and the use of a null pointer, which the code does not
  guard against where it reads a layer or a parsed value.
\<close>

datatype nas_error = ReaderNotInstantiated | SchemaScanFailed | NullPointer

text \<open>
  What \<^verbatim>\<open>Open\<close> learns from the reader and the file system: whether the reader could
  be created, whether the schema file exists, whether the NAS file is newer than the
  schema file, the results of \<^verbatim>\<open>LoadClasses\<close> and \<^verbatim>\<open>PrescanForSchema\<close>, whether the last
  error is a failure after the scan, and the classes the reader holds when the layers
  are translated.
\<close>

record NASReader =
  rd_created :: bool
  rd_gfs_stat_ok :: bool
  rd_nas_newer :: bool
  rd_LoadClasses :: bool
  rd_PrescanForSchema :: bool
  rd_last_error_failure :: bool
  rd_classes :: "GMLFeatureClass list"

text \<open>
  An entry of the layer array points to the layer of a class or to the relation layer.
  The class of the relation layer is not among the sources; \<^verbatim>\<open>Open\<close> reads the name of
  class layers only, so that the name given to the relation layer here has no part in
  any result.
\<close>

datatype 'srs NASLayerRef = ClassLayer "'srs OGRNASLayer" | RelationLayer

fun GetName :: "'srs NASLayerRef \<Rightarrow> string" where
  "GetName (ClassLayer l) = lyr_name l"
| "GetName RelationLayer = ''ALKIS_beziehungen''"

text \<open>
  The data source: the array \<^verbatim>\<open>papoLayers\<close>, allocated with one entry more than there are
  classes and filled with null pointers (\<open>None\<close>), the counter \<^verbatim>\<open>nLayers\<close> and the name.
\<close>

record 'srs OGRNASDataSource =
  ds_papoLayers :: "'srs NASLayerRef option list"
  ds_nLayers :: int
  ds_pszName :: string

text \<open>The \<^verbatim>\<open>while\<close> loop of \<^verbatim>\<open>Open\<close> that translates the classes, one for each round.\<close>

function translate_loop ::
  "(string \<Rightarrow> 'srs option) \<Rightarrow> GMLFeatureClass list \<Rightarrow> 'srs NASLayerRef option list \<Rightarrow> int \<Rightarrow>
   'srs NASLayerRef option list \<times> int" where
  "translate_loop SetFromUserInput classes papoLayers nLayers =
     (if nLayers < int (length classes) then
        translate_loop SetFromUserInput classes
          (papoLayers[nat nLayers :=
             Some (ClassLayer (TranslateNASSchema SetFromUserInput (classes ! nat nLayers)))])
          (nLayers + 1)
      else (papoLayers, nLayers))"
  by pat_completeness auto

termination
  by (relation "measure (\<lambda>(f, classes, papoLayers, nLayers). nat (int (length classes) - nLayers))")
     auto

declare translate_loop.simps [simp del]

text \<open>
  \<^verbatim>\<open>Open\<close>. The schema file that the code may write has no part in the result and is left
  out. The result is the error for a return of \<^verbatim>\<open>FALSE\<close>, or the data source.
\<close>

definition Open ::
  "(string \<Rightarrow> 'srs option) \<Rightarrow> NASReader \<Rightarrow> string \<Rightarrow> nas_error + 'srs OGRNASDataSource" where
  "Open SetFromUserInput poReader pszNewName =
     (if \<not> rd_created poReader then Inl ReaderNotInstantiated
      else
        let bHaveSchema =
              (if rd_gfs_stat_ok poReader then
                 (if rd_nas_newer poReader then False else rd_LoadClasses poReader)
               else False)
        in
          if \<not> bHaveSchema \<and> \<not> rd_PrescanForSchema poReader \<and> rd_last_error_failure poReader
          then Inl SchemaScanFailed
          else
            (case translate_loop SetFromUserInput (rd_classes poReader)
                    (replicate (length (rd_classes poReader) + 1) None) 0 of
               (papoLayers, nLayers) \<Rightarrow>
                 if nLayers > 0 then
                   (case papoLayers ! nat (nLayers - 1) of
                      None \<Rightarrow> Inl NullPointer
                    | Some poLast \<Rightarrow>
                        if EQUAL (GetName poLast) ''Delete'' then
                          Inr \<lparr>ds_papoLayers =
                                 papoLayers[nat nLayers := papoLayers ! nat (nLayers - 1),
                                            nat (nLayers - 1) := Some RelationLayer],
                               ds_nLayers = nLayers + 1, ds_pszName = pszNewName\<rparr>
                        else
                          Inr \<lparr>ds_papoLayers = papoLayers[nat nLayers := Some RelationLayer],
                               ds_nLayers = nLayers + 1, ds_pszName = pszNewName\<rparr>)
                 else
                   Inr \<lparr>ds_papoLayers = papoLayers[nat nLayers := Some RelationLayer],
                        ds_nLayers = nLayers + 1, ds_pszName = pszNewName\<rparr>))"

definition GetLayer :: "'srs OGRNASDataSource \<Rightarrow> int \<Rightarrow> 'srs NASLayerRef option" where
  "GetLayer ds iLayer =
     (if iLayer < 0 \<or> iLayer \<ge> ds_nLayers ds then None
      else ds_papoLayers ds ! nat iLayer)"

section \<open>NAS: extracting the relations\<close>

text \<open>
  A property of a parsed feature holds its values in \<^verbatim>\<open>papszSubProperties\<close>;
  \<^verbatim>\<open>nSubProperties\<close> is their number.
\<close>

record GMLProperty =
  papszSubProperties :: "string list"

definition nSubProperties :: "GMLProperty \<Rightarrow> int" where
  "nSubProperties p = int (length (papszSubProperties p))"

text \<open>
  A parsed feature, as far as the extraction reads it: the index of the property
  \<^verbatim>\<open>gml_id\<close> in its class (what \<^verbatim>\<open>GetClass()->GetPropertyIndex("gml_id")\<close> returns,
  negative when the class has no such property), its properties, and its list of
  auxiliary name=value strings (empty for the null pointer).
\<close>

record GMLFeature =
  gf_gml_id_index :: int
  gf_properties :: "GMLProperty list"
  gf_ob_properties :: "string list"

text \<open>
  Modelled from the spec: \<^verbatim>\<open>GMLFeature::GetProperty\<close> is defined in \<^verbatim>\<open>gmlreader.h\<close>, which is
  not among the sources. It gives the property at an index, and the null pointer when the
  feature has no property at that index.
\<close>

definition GetProperty :: "GMLFeature \<Rightarrow> int \<Rightarrow> GMLProperty option" where
  "GetProperty poFeature i =
     (if 0 \<le> i \<and> i < int (length (gf_properties poFeature))
      then Some (gf_properties poFeature ! nat i) else None)"

text \<open>
  \<^verbatim>\<open>CPLParseNameValue\<close> belongs to the portability library; it is a parameter of the
  model, giving the name and the value of a string, or \<open>None\<close> where it returns the null
  pointer. \<^verbatim>\<open>AddRelation\<close> and \<^verbatim>\<open>MarkRelationsPopulated\<close> are methods of the relation layer,
  whose class is not among the sources; they are parameters too, acting on the state
  \<open>'l\<close> of the relation layer.
\<close>

type_synonym parse_name_value = "string \<Rightarrow> (string \<times> string) option"

type_synonym 'l add_relation = "'l \<Rightarrow> string \<Rightarrow> string \<Rightarrow> string \<Rightarrow> 'l"

text \<open>
  The inner loop over the auxiliary properties of one feature. A value that is the null
  pointer is handed to \<^verbatim>\<open>STARTS_WITH_CI\<close> as it is, which is the error \<open>NullPointer\<close>.
\<close>

fun ob_loop ::
  "parse_name_value \<Rightarrow> 'l add_relation \<Rightarrow> GMLFeature \<Rightarrow> string list \<Rightarrow> 'l \<Rightarrow> nas_error + 'l" where
  "ob_loop CPLParseNameValue AddRelation poFeature [] l = Inr l"
| "ob_loop CPLParseNameValue AddRelation poFeature (ob # obs) l =
     (let nGMLIdIndex = gf_gml_id_index poFeature;
          psGMLId = (if nGMLIdIndex \<ge> 0 then GetProperty poFeature nGMLIdIndex else None)
      in case CPLParseNameValue ob of
           None \<Rightarrow> Inl NullPointer
         | Some (l_pszName, pszValue) \<Rightarrow>
             ob_loop CPLParseNameValue AddRelation poFeature obs
               (case psGMLId of
                  None \<Rightarrow> l
                | Some p \<Rightarrow>
                    if STARTS_WITH_CI pszValue ''urn:adv:oid:'' \<and> nSubProperties p = 1
                    then AddRelation l (papszSubProperties p ! 0) l_pszName (drop 12 pszValue)
                    else l))"

text \<open>The outer loop over the features the reader gives after it was reset.\<close>

fun feature_loop ::
  "parse_name_value \<Rightarrow> 'l add_relation \<Rightarrow> GMLFeature list \<Rightarrow> 'l \<Rightarrow> nas_error + 'l" where
  "feature_loop CPLParseNameValue AddRelation [] l = Inr l"
| "feature_loop CPLParseNameValue AddRelation (poFeature # rest) l =
     (case ob_loop CPLParseNameValue AddRelation poFeature (gf_ob_properties poFeature) l of
        Inl e \<Rightarrow> Inl e
      | Inr l' \<Rightarrow> feature_loop CPLParseNameValue AddRelation rest l')"

definition PopulateRelations ::
  "parse_name_value \<Rightarrow> 'l add_relation \<Rightarrow> ('l \<Rightarrow> 'l) \<Rightarrow> GMLFeature list \<Rightarrow> 'l \<Rightarrow> nas_error + 'l" where
  "PopulateRelations CPLParseNameValue AddRelation MarkRelationsPopulated features l =
     (case feature_loop CPLParseNameValue AddRelation features l of
        Inl e \<Rightarrow> Inl e
      | Inr l' \<Rightarrow> Inr (MarkRelationsPopulated l'))"

text \<open>
  The relation records as the specification words them. The identifier values of a
  feature are the values of its identifier property, if it has one. One auxiliary
  property gives one record when its value starts with the prefix of an object
  identifier and the feature has exactly one identifier value, and none otherwise.
\<close>

record RelationRecord =
  rel_source :: string
  rel_name :: string
  rel_target :: string

definition identifier_values :: "GMLFeature \<Rightarrow> string list option" where
  "identifier_values f =
     (if 0 \<le> gf_gml_id_index f \<and> gf_gml_id_index f < int (length (gf_properties f))
      then Some (papszSubProperties (gf_properties f ! nat (gf_gml_id_index f)))
      else None)"

definition relation_of :: "parse_name_value \<Rightarrow> GMLFeature \<Rightarrow> string \<Rightarrow> RelationRecord list" where
  "relation_of parse f ob =
     (case parse ob of
        None \<Rightarrow> []
      | Some (name, v) \<Rightarrow>
          (case identifier_values f of
             Some [ident] \<Rightarrow>
               if map tolower (take 12 v) = ''urn:adv:oid:''
               then [\<lparr>rel_source = ident, rel_name = name, rel_target = drop 12 v\<rparr>]
               else []
           | _ \<Rightarrow> []))"

definition expected_relations :: "parse_name_value \<Rightarrow> GMLFeature list \<Rightarrow> RelationRecord list" where
  "expected_relations parse fs =
     concat (map (\<lambda>f. concat (map (relation_of parse f) (gf_ob_properties f))) fs)"

section \<open>Properties of the field-type mapping\<close>

text \<open>The value of a 32-bit integer lies in the 32-bit range.\<close>

lemma sint_32_range:
  fixes a :: c_int
  shows "- 2147483648 \<le> sint a" and "sint a \<le> 2147483647"
  using sint_ge [of a] sint_lt [of a] by simp_all

text \<open>
  The value of a 32-bit difference: the difference of the values, moved back into the
  range by 2 ^ 32 when it lies below or above it.
\<close>

lemma sint_sub_cases:
  fixes a b :: c_int
  shows "sint (a - b) =
     (if sint a - sint b < - 2147483648 then sint a - sint b + 4294967296
      else if 2147483647 < sint a - sint b then sint a - sint b - 4294967296
      else sint a - sint b)"
proof -
  define k where "k = sint a - sint b"
  have lo: "- 4294967295 \<le> k" and hi: "k \<le> 4294967295"
    using sint_32_range [of a] sint_32_range [of b] by (simp_all add: k_def)
  have s: "sint (a - b) = (k + 2147483648) mod 4294967296 - 2147483648"
    by (simp add: sint_word_diff signed_take_bit_eq_take_bit_shift take_bit_eq_mod k_def)
  consider "k < - 2147483648" | "2147483647 < k" | "- 2147483648 \<le> k" "k \<le> 2147483647"
    by linarith
  then have "(k + 2147483648) mod 4294967296 - 2147483648 =
     (if k < - 2147483648 then k + 4294967296
      else if 2147483647 < k then k - 4294967296
      else k)"
  proof cases
    case 1
    have "(k + 2147483648) mod 4294967296 = (k + 2147483648 + 4294967296) mod 4294967296"
      by (simp only: mod_add_self2)
    also have "\<dots> = k + 2147483648 + 4294967296"
      using 1 lo by (intro mod_pos_pos_trivial) simp_all
    finally show ?thesis using 1 by simp
  next
    case 2
    have "(k + 2147483648 - 4294967296 + 4294967296) mod 4294967296 =
            (k + 2147483648 - 4294967296) mod 4294967296"
      by (rule mod_add_self2)
    then have "(k + 2147483648) mod 4294967296 = (k + 2147483648 - 4294967296) mod 4294967296"
      by (simp add: add.commute)
    also have "\<dots> = k + 2147483648 - 4294967296"
      using 2 hi by (intro mod_pos_pos_trivial) simp_all
    finally show ?thesis using 2 by simp
  next
    case 3
    have "(k + 2147483648) mod 4294967296 = k + 2147483648"
      using 3 by (intro mod_pos_pos_trivial) simp_all
    then show ?thesis using 3 by simp
  qed
  with s show ?thesis by (simp add: k_def)
qed








lemma sint_eq_1:
  fixes w :: c_int
  assumes "0 < sint w" and "sint w < 2"
  shows "w = 1"
proof -
  from assms have "sint w = 1" by simp
  then have "(word_of_int (sint w) :: c_int) = word_of_int 1" by simp
  then show ?thesis by simp
qed

text \<open>
  C10. The mapping can succeed with a negative precision: for every Real field with
  0 < width < 2 and precision \<ge> 0 the result is Decimal with the width unchanged and the
  precision set to width - 2, which is negative.
\<close>

theorem GetTABType_real_negative_precision:
  assumes "0 < sint w" and "sint w < 2" and "0 \<le> sint p"
  shows "GetTABType \<lparr>fd_name = n, fd_type = OFTReal, fd_width = w, fd_precision = p\<rparr> outs =
           (0, (Some TABFDecimal, w, w - 2))
         \<and> sint (w - 2) < 0"
proof -
  have w: "w = 1" using assms(1,2) by (rule sint_eq_1)
  have "sint (1 - p) = 1 - sint p"
    using sint_sub_cases [of 1 p] sint_32_range [of p] assms(3) by simp
  with assms(3) have d: "1 - p <s 2"
    by (simp add: word_sless_alt)
  show ?thesis
    unfolding w using d by (simp add: GetTABType_def Let_def word_sless_alt)
qed

theorem GetTABType_real_negative_precision_witness:
  "(0::int) < sint (1 :: c_int) \<and> sint (1 :: c_int) < (2::int) \<and> (0::int) \<le> sint (0 :: c_int)
   \<and> GetTABType \<lparr>fd_name = ''len'', fd_type = OFTReal, fd_width = 1, fd_precision = 0\<rparr> (None, 0, 0) =
       (0, (Some TABFDecimal, 1, - 1))"
  using GetTABType_real_negative_precision [of 1 0 "''len''" "(None, 0, 0)"]
  by simp

text \<open>
  C7, as the code has it. The default width is applied only when the input width is 0
  (Integer 12, Date 10, Time 9, DateTime 19, String 254, and Real 32 when the precision is
  0 as well). A nonzero input width is returned unchanged for Integer, Date, Time and
  DateTime; for String it becomes min(width, 254); for Real it is unchanged up to 20 and
  becomes 20 above. The width returned for a String never exceeds 254.
\<close>

theorem GetTABType_width:
  assumes "t \<in> {OFTInteger, OFTReal, OFTString, OFTDate, OFTTime, OFTDateTime}"
  shows "fst (snd (snd (GetTABType \<lparr>fd_name = n, fd_type = t, fd_width = w, fd_precision = p\<rparr> outs))) =
           (if w = 0 then
              (if t = OFTInteger then 12
               else if t = OFTDate then 10
               else if t = OFTTime then 9
               else if t = OFTDateTime then 19
               else if t = OFTString then 254
               else if p = 0 then 32 else 0)
            else if t = OFTString then (if w <s 254 then w else 254)
            else if t = OFTReal then (if 20 <s w then 20 else w)
            else w)
         \<and> (t = OFTString \<longrightarrow>
              sint (fst (snd (snd (GetTABType \<lparr>fd_name = n, fd_type = t, fd_width = w, fd_precision = p\<rparr> outs))))
                \<le> 254)"
  using assms by (auto simp add: GetTABType_def Let_def word_sless_alt)

theorem GetTABType_width_witness:
  "OFTString \<in> {OFTInteger, OFTReal, OFTString, OFTDate, OFTTime, OFTDateTime}
   \<and> fst (snd (snd (GetTABType \<lparr>fd_name = ''label'', fd_type = OFTString, fd_width = 300, fd_precision = 0\<rparr>
         (None, 0, 0)))) = 254"
  using GetTABType_width [where t = OFTString and w = 300 and n = "''label''" and p = 0 and outs = "(None, 0, 0)"]
  by simp

text \<open>
  C7, as the specification words it, fails: a Real field is of a supported type, its
  nonzero width 25 is altered to 20, and it is not a String.
\<close>

theorem GetTABType_width_counterexample:
  "fd_type \<lparr>fd_name = ''area'', fd_type = OFTReal, fd_width = 25, fd_precision = 3\<rparr> \<noteq> OFTString
   \<and> fd_width \<lparr>fd_name = ''area'', fd_type = OFTReal, fd_width = 25, fd_precision = 3\<rparr> \<noteq> 0
   \<and> GetTABType \<lparr>fd_name = ''area'', fd_type = OFTReal, fd_width = 25, fd_precision = 3\<rparr> (None, 0, 0) =
       (0, (Some TABFDecimal, 20, 3))
   \<and> fst (snd (snd (GetTABType \<lparr>fd_name = ''area'', fd_type = OFTReal, fd_width = 25, fd_precision = 3\<rparr>
         (None, 0, 0)))) \<noteq>
       fd_width \<lparr>fd_name = ''area'', fd_type = OFTReal, fd_width = 25, fd_precision = 3\<rparr>"
  by (simp add: GetTABType_def Let_def)

text \<open>
  C8. The mapping returns an error (-1) exactly when the type of the field is outside
  Integer, Real, String, Date, Time, DateTime, which holds for every list type, and
  returns 0 otherwise. On the error the three output cells keep what they held. CreateField
  then returns a failure for this field and leaves the state of the file as it was, so
  that the creation of any other field after it behaves as if the call had not been made.
\<close>

theorem GetTABType_unsupported:
  "(fst (GetTABType f outs) = (if fd_type f \<in> {OFTInteger, OFTReal, OFTString, OFTDate, OFTTime, OFTDateTime}
                               then 0 else - 1))
   \<and> (fd_type f \<in> {OFTStringList, OFTIntegerList, OFTRealList} \<longrightarrow> fst (GetTABType f outs) = - 1)
   \<and> (fst (GetTABType f outs) < 0 \<longrightarrow>
         snd (GetTABType f outs) = outs
       \<and> CreateField AddFieldNative f bApproxOK s = (OGRERR_FAILURE, s)
       \<and> CreateField AddFieldNative g bApproxOK' (snd (CreateField AddFieldNative f bApproxOK s)) =
           CreateField AddFieldNative g bApproxOK' s)"
  by (simp add: GetTABType_def CreateField_def Let_def)

theorem GetTABType_unsupported_witness:
  "fd_type \<lparr>fd_name = ''tags'', fd_type = OFTStringList, fd_width = 0, fd_precision = 0\<rparr>
     \<in> {OFTStringList, OFTIntegerList, OFTRealList}
   \<and> GetTABType \<lparr>fd_name = ''tags'', fd_type = OFTStringList, fd_width = 0, fd_precision = 0\<rparr>
       (Some TABFChar, 7, 5) = (- 1, (Some TABFChar, 7, 5))
   \<and> CreateField (\<lambda>s nm t w p i u a. (int (length s), s @ [(nm, t, w, p)]))
       \<lparr>fd_name = ''tags'', fd_type = OFTStringList, fd_width = 0, fd_precision = 0\<rparr> 0 [] =
       (OGRERR_FAILURE, [])
   \<and> CreateField (\<lambda>s nm t w p i u a. (int (length s), s @ [(nm, t, w, p)]))
       \<lparr>fd_name = ''id'', fd_type = OFTInteger, fd_width = 0, fd_precision = 0\<rparr> 0
       (snd (CreateField (\<lambda>s nm t w p i u a. (int (length s), s @ [(nm, t, w, p)]))
          \<lparr>fd_name = ''tags'', fd_type = OFTStringList, fd_width = 0, fd_precision = 0\<rparr> 0 [])) =
       (OGRERR_NONE, [(''id'', Some TABFInteger, 12, 0)])"
  using GetTABType_unsupported [of "\<lparr>fd_name = ''tags'', fd_type = OFTStringList, fd_width = 0, fd_precision = 0\<rparr>"
          "(Some TABFChar, 7, 5)" "\<lambda>s nm t w p i u a. (int (length s), s @ [(nm, t, w, p)])" 0 "[]"
          "\<lparr>fd_name = ''id'', fd_type = OFTInteger, fd_width = 0, fd_precision = 0\<rparr>" 0]
  by (simp add: GetTABType_def CreateField_def Let_def OGRERR_NONE_def OGRERR_FAILURE_def prod_eq_iff)

section \<open>Properties of the create path\<close>

lemma CreateTABFeature_point:
  "CreateTABFeature cn (f\<lparr>f_fid := OGRNullFID, f_geometry := Some (OGRPoint c)\<rparr>) s =
     (Some (point_TABFeature f c), s)"
  by (simp add: CreateTABFeature.simps finish_TABFeature_def new_TABFeature_def
      point_TABFeature_def SetSymbolFromStyleString_def split: option.splits)

lemma ICreateFeature_point:
  "ICreateFeature cn (f\<lparr>f_fid := OGRNullFID, f_geometry := Some (OGRPoint c)\<rparr>) s =
     (case cn s (point_TABFeature f c) of
        (eErr, t', s') \<Rightarrow>
          (eErr,
           (if eErr = OGRERR_NONE then f\<lparr>f_fid := tab_fid t', f_geometry := Some (OGRPoint c)\<rparr>
            else f\<lparr>f_fid := OGRNullFID, f_geometry := Some (OGRPoint c)\<rparr>),
           s'))"
  by (simp add: ICreateFeature.simps CreateTABFeature_point split: prod.splits)

text \<open>
  The loop over the children of a multi-point, when the persistence calls it makes
  succeed: it runs to the end and submits one point feature for each remaining child, in
  order.
\<close>

lemma decompose_points:
  assumes "calls_succeed cn (map (point_TABFeature tmp) (drop i pts)) s"
  shows "\<exists>tmp' s'.
           decompose (recording cn) (map OGRPoint pts) i OGRERR_NONE tmp (submitted, s) =
             (OGRERR_NONE, tmp', (submitted @ map (point_TABFeature tmp) (drop i pts), s'))"
  using assms
proof (induction "length pts - i" arbitrary: i tmp submitted s)
  case 0
  then show ?case by (subst decompose.simps) simp
next
  case (Suc n)
  then have lt: "i < length pts" by simp
  have dr: "drop i pts = pts ! i # drop (Suc i) pts"
    using lt by (simp add: Cons_nth_drop_Suc)
  obtain e t' s' where step: "cn s (point_TABFeature tmp (pts ! i)) = (e, t', s')"
    by (cases "cn s (point_TABFeature tmp (pts ! i))") auto
  from Suc(3) have e: "e = OGRERR_NONE"
    and later: "calls_succeed cn (map (point_TABFeature tmp) (drop (Suc i) pts)) s'"
    by (simp_all add: dr step)
  let ?tmp = "tmp\<lparr>f_fid := tab_fid t', f_geometry := Some (OGRPoint (pts ! i))\<rparr>"
  have pf: "point_TABFeature ?tmp = point_TABFeature tmp"
    by (simp add: point_TABFeature_def fun_eq_iff)
  from Suc(2) have "n = length pts - Suc i" by simp
  from Suc(1) [OF this, of ?tmp s' "submitted @ [point_TABFeature tmp (pts ! i)]"] later
  obtain tmp' s'' where rest:
    "decompose (recording cn) (map OGRPoint pts) (Suc i) OGRERR_NONE ?tmp
        (submitted @ [point_TABFeature tmp (pts ! i)], s') =
       (OGRERR_NONE, tmp', ((submitted @ [point_TABFeature tmp (pts ! i)]) @
          map (point_TABFeature ?tmp) (drop (Suc i) pts), s''))"
    unfolding pf by blast
  show ?case
    using lt step e rest pf dr
    by (subst decompose.simps) (simp add: ICreateFeature_point recording_def)
qed

lemma CreateTABFeature_multipoint:
  "CreateTABFeature cn (f\<lparr>f_geometry := Some (OGRMultiPoint cs)\<rparr>) s =
     (None, snd (snd (decompose cn cs 0 OGRERR_NONE (f\<lparr>f_geometry := Some (OGRMultiPoint cs)\<rparr>) s)))"
  by (simp add: CreateTABFeature.simps split: prod.splits)

text \<open>
  C3. For a feature whose geometry is a multi-point of N points, when every persistence
  call for a child succeeds (each call made in the state the calls before it have left),
  the create path submits exactly N native features for persistence, one single-point
  feature for each child in enumeration order, each submitted with the unassigned FID;
  the top-level call returns success, leaves the generic feature as it was, and no
  native feature is produced for the multi-point itself.
\<close>

theorem ICreateFeature_multipoint:
  assumes "calls_succeed CreateFeature
             (map (\<lambda>c. \<lparr>tab_class = TABPoint, tab_symbol = f_style f, tab_pen = None,
                        tab_brush = None, tab_geometry = Some (OGRPoint c),
                        tab_fields = f_fields f, tab_fid = OGRNullFID\<rparr>) pts) s"
  shows "fst (CreateTABFeature (recording CreateFeature)
                (f\<lparr>f_geometry := Some (OGRMultiPoint (map OGRPoint pts))\<rparr>) ([], s)) = None
       \<and> fst (ICreateFeature (recording CreateFeature)
                (f\<lparr>f_geometry := Some (OGRMultiPoint (map OGRPoint pts))\<rparr>) ([], s)) = OGRERR_NONE
       \<and> fst (snd (ICreateFeature (recording CreateFeature)
                (f\<lparr>f_geometry := Some (OGRMultiPoint (map OGRPoint pts))\<rparr>) ([], s))) =
           f\<lparr>f_geometry := Some (OGRMultiPoint (map OGRPoint pts))\<rparr>
       \<and> fst (snd (snd (ICreateFeature (recording CreateFeature)
                (f\<lparr>f_geometry := Some (OGRMultiPoint (map OGRPoint pts))\<rparr>) ([], s)))) =
           map (\<lambda>c. \<lparr>tab_class = TABPoint, tab_symbol = f_style f, tab_pen = None,
                      tab_brush = None, tab_geometry = Some (OGRPoint c),
                      tab_fields = f_fields f, tab_fid = OGRNullFID\<rparr>) pts
       \<and> length (fst (snd (snd (ICreateFeature (recording CreateFeature)
                (f\<lparr>f_geometry := Some (OGRMultiPoint (map OGRPoint pts))\<rparr>) ([], s))))) = length pts"
proof -
  let ?f = "f\<lparr>f_geometry := Some (OGRMultiPoint (map OGRPoint pts))\<rparr>"
  have p: "point_TABFeature ?f =
             (\<lambda>c. \<lparr>tab_class = TABPoint, tab_symbol = f_style f, tab_pen = None,
                    tab_brush = None, tab_geometry = Some (OGRPoint c),
                    tab_fields = f_fields f, tab_fid = OGRNullFID\<rparr>)"
    by (simp add: point_TABFeature_def fun_eq_iff)
  from assms have ok: "calls_succeed CreateFeature (map (point_TABFeature ?f) (drop 0 pts)) s"
    unfolding p by simp
  obtain tmp' s' where d:
    "decompose (recording CreateFeature) (map OGRPoint pts) 0 OGRERR_NONE ?f ([], s) =
       (OGRERR_NONE, tmp', ([] @ map (point_TABFeature ?f) (drop 0 pts), s'))"
    using decompose_points [OF ok, of "[]"] by blast
  have c: "CreateTABFeature (recording CreateFeature) ?f ([], s) =
             (None, (map (point_TABFeature ?f) pts, s'))"
    by (simp add: CreateTABFeature_multipoint d)
  have i: "ICreateFeature (recording CreateFeature) ?f ([], s) =
             (OGRERR_NONE, ?f, (map (point_TABFeature ?f) pts, s'))"
    by (simp add: ICreateFeature.simps c)
  show ?thesis by (simp add: c i p)
qed

text \<open>
  The witness is a persistence method that fails in the state 0 and succeeds in every
  other state; the run starts in the state 10.
\<close>

theorem ICreateFeature_multipoint_witness:
  "calls_succeed
       (\<lambda>s t. (if s = 0 then OGRERR_FAILURE else OGRERR_NONE, t\<lparr>tab_fid := int s\<rparr>, Suc s))
       (map (\<lambda>c. \<lparr>tab_class = TABPoint, tab_symbol = Some ''SYMBOL(id:1)'', tab_pen = None,
                   tab_brush = None, tab_geometry = Some (OGRPoint c),
                   tab_fields = [''a''], tab_fid = OGRNullFID\<rparr>) [(1::int, 2::int), (3, 4)]) 10
   \<and> fst (ICreateFeature
            (recording (\<lambda>s t. (if s = 0 then OGRERR_FAILURE else OGRERR_NONE, t\<lparr>tab_fid := int s\<rparr>, Suc s)))
       \<lparr>f_fid = 7, f_geometry = Some (OGRMultiPoint [OGRPoint (1::int, 2::int), OGRPoint (3, 4)]),
        f_fields = [''a''], f_style = Some ''SYMBOL(id:1)''\<rparr> ([], 10)) = OGRERR_NONE
   \<and> fst (snd (snd (ICreateFeature
            (recording (\<lambda>s t. (if s = 0 then OGRERR_FAILURE else OGRERR_NONE, t\<lparr>tab_fid := int s\<rparr>, Suc s)))
       \<lparr>f_fid = 7, f_geometry = Some (OGRMultiPoint [OGRPoint (1::int, 2::int), OGRPoint (3, 4)]),
        f_fields = [''a''], f_style = Some ''SYMBOL(id:1)''\<rparr> ([], 10)))) =
       [\<lparr>tab_class = TABPoint, tab_symbol = Some ''SYMBOL(id:1)'', tab_pen = None, tab_brush = None,
         tab_geometry = Some (OGRPoint (1::int, 2::int)), tab_fields = [''a''], tab_fid = - 1\<rparr>,
        \<lparr>tab_class = TABPoint, tab_symbol = Some ''SYMBOL(id:1)'', tab_pen = None, tab_brush = None,
         tab_geometry = Some (OGRPoint (3, 4)), tab_fields = [''a''], tab_fid = - 1\<rparr>]"
  using ICreateFeature_multipoint
    [where CreateFeature = "\<lambda>s t. (if s = 0 then OGRERR_FAILURE else OGRERR_NONE, t\<lparr>tab_fid := int s\<rparr>, Suc s)"
       and f = "\<lparr>f_fid = 7, f_geometry = None, f_fields = [''a''], f_style = Some ''SYMBOL(id:1)''\<rparr>"
       and pts = "[(1::int, 2::int), (3, 4)]" and s = 10]
  by (simp add: OGRNullFID_def OGRERR_NONE_def OGRERR_FAILURE_def)

text \<open>
  Whatever the persistence method returns for the children, the create path reports
  success for a multi-point or a geometry collection.
\<close>

lemma ICreateFeature_collection_status:
  assumes "f_geometry f = Some (OGRMultiPoint cs) \<or> f_geometry f = Some (OGRGeometryCollection cs)"
  shows "fst (ICreateFeature cn f s) = OGRERR_NONE"
  using assms
  by (auto simp add: ICreateFeature.simps CreateTABFeature.simps split: prod.splits)

text \<open>
  C1, on the code. A multi-point of two points is created on a file whose persistence
  method fails on every call. The loop stops after the first child, so that one native
  feature is submitted and not two; but the status of the loop is dropped, the null
  pointer is returned, and the top-level call returns success and not the failure.
\<close>

theorem ICreateFeature_child_failure_lost:
  "ICreateFeature (recording (\<lambda>s t. (OGRERR_FAILURE, t, s)))
       \<lparr>f_fid = 7, f_geometry = Some (OGRMultiPoint [OGRPoint (1::int, 2::int), OGRPoint (3, 4)]),
        f_fields = [''a''], f_style = None\<rparr> ([], ()) =
     (OGRERR_NONE,
      \<lparr>f_fid = 7, f_geometry = Some (OGRMultiPoint [OGRPoint (1, 2), OGRPoint (3, 4)]),
       f_fields = [''a''], f_style = None\<rparr>,
      ([\<lparr>tab_class = TABPoint, tab_symbol = None, tab_pen = None, tab_brush = None,
         tab_geometry = Some (OGRPoint (1, 2)), tab_fields = [''a''], tab_fid = - 1\<rparr>],
       ()))"
  by code_simp

section \<open>Properties of the schema translation\<close>

lemma strrchr_absent: "c \<notin> set xs \<Longrightarrow> strrchr xs c = None"
  by (induction xs) auto

lemma strrchr_last: "c \<notin> set h \<Longrightarrow> strrchr (pre @ c # h) c = Some (c # h)"
  by (induction pre) (auto simp add: strrchr_absent)

lemma urn_loop_no_match:
  "\<forall>(t, c) \<in> set tab. \<not> urn_matches t h \<Longrightarrow> urn_loop tab h s = s"
  by (induction tab arbitrary: s) (auto simp add: urn_matches_def Let_def)

lemma EQUAL_length: "EQUAL a b \<Longrightarrow> length a = length b"
  unfolding EQUAL_def by (metis length_map)

lemma urn_loop_apszURNNames:
  "urn_loop apszURNNames h s =
     (if urn_matches ''ETRS89_UTM33'' h then ''EPSG:25833''
      else if urn_matches ''ETRS89_UTM32'' h then ''EPSG:25832''
      else if urn_matches ''DE_DHDN_3GK3_*'' h then ''EPSG:31467''
      else if urn_matches ''DE_DHDN_3GK2_*'' h then ''EPSG:31466''
      else s)"
  by (simp add: apszURNNames_def urn_matches_def Let_def)

lemma urn_loop_match:
  assumes "(target, code) \<in> set apszURNNames"
    and "target = h \<or> (last target = CHR ''*'' \<and> (\<exists>rest. h = butlast target @ rest))"
  shows "urn_loop apszURNNames h s = code"
proof -
  from assms(1) have "(target, code) = (''DE_DHDN_3GK2_*'', ''EPSG:31466'')
      \<or> (target, code) = (''DE_DHDN_3GK3_*'', ''EPSG:31467'')
      \<or> (target, code) = (''ETRS89_UTM32'', ''EPSG:25832'')
      \<or> (target, code) = (''ETRS89_UTM33'', ''EPSG:25833'')"
    unfolding apszURNNames_def by simp
  then show ?thesis
  proof (elim disjE)
    assume "(target, code) = (''DE_DHDN_3GK2_*'', ''EPSG:31466'')"
    then have tc: "target = ''DE_DHDN_3GK2_*''" "code = ''EPSG:31466''" by simp_all
    from assms(2) show ?thesis
    proof
      assume "target = h"
      with tc have h: "h = ''DE_DHDN_3GK2_*''" by simp
      show ?thesis unfolding h tc urn_loop_apszURNNames
        by (simp add: urn_matches_def EQUAL_def EQUALN_def tolower_def)
    next
      assume "last target = CHR ''*'' \<and> (\<exists>rest. h = butlast target @ rest)"
      with tc obtain rest where h: "h = butlast ''DE_DHDN_3GK2_*'' @ rest" by auto
      show ?thesis unfolding h tc urn_loop_apszURNNames
        by (simp add: urn_matches_def EQUAL_def EQUALN_def tolower_def)
    qed
  next
    assume "(target, code) = (''DE_DHDN_3GK3_*'', ''EPSG:31467'')"
    then have tc: "target = ''DE_DHDN_3GK3_*''" "code = ''EPSG:31467''" by simp_all
    from assms(2) show ?thesis
    proof
      assume "target = h"
      with tc have h: "h = ''DE_DHDN_3GK3_*''" by simp
      show ?thesis unfolding h tc urn_loop_apszURNNames
        by (simp add: urn_matches_def EQUAL_def EQUALN_def tolower_def)
    next
      assume "last target = CHR ''*'' \<and> (\<exists>rest. h = butlast target @ rest)"
      with tc obtain rest where h: "h = butlast ''DE_DHDN_3GK3_*'' @ rest" by auto
      show ?thesis unfolding h tc urn_loop_apszURNNames
        by (simp add: urn_matches_def EQUAL_def EQUALN_def tolower_def)
    qed
  next
    assume "(target, code) = (''ETRS89_UTM32'', ''EPSG:25832'')"
    then have tc: "target = ''ETRS89_UTM32''" "code = ''EPSG:25832''" by simp_all
    with assms(2) have h: "h = ''ETRS89_UTM32''" by auto
    show ?thesis unfolding h tc urn_loop_apszURNNames
      by (simp add: urn_matches_def EQUAL_def EQUALN_def tolower_def)
  next
    assume "(target, code) = (''ETRS89_UTM33'', ''EPSG:25833'')"
    then have tc: "target = ''ETRS89_UTM33''" "code = ''EPSG:25833''" by simp_all
    with assms(2) have h: "h = ''ETRS89_UTM33''" by auto
    show ?thesis unfolding h tc urn_loop_apszURNNames
      by (simp add: urn_matches_def EQUAL_def EQUALN_def tolower_def)
  qed
qed


text \<open>
  C5. The layer made for a feature class has the geometry type none when the class
  declares no geometry property, the declared type of the first geometry property when
  there is one and the feature count is not zero, and unknown when there is a geometry
  property and the feature count is zero.
\<close>

theorem TranslateNASSchema_geometry_type:
  "(fc_geometry_properties cls = [] \<longrightarrow>
      lyr_gtype (TranslateNASSchema sfui cls) = wkbNone)
   \<and> (\<forall>g gs. fc_geometry_properties cls = g # gs \<and> fc_feature_count cls \<noteq> 0 \<longrightarrow>
      lyr_gtype (TranslateNASSchema sfui cls) = g)
   \<and> (fc_geometry_properties cls \<noteq> [] \<and> fc_feature_count cls = 0 \<longrightarrow>
      lyr_gtype (TranslateNASSchema sfui cls) = wkbUnknown)"
  by (simp add: TranslateNASSchema_def Let_def)

theorem TranslateNASSchema_geometry_type_witness:
  "fc_geometry_properties \<lparr>fc_name = ''AX_Flurstueck'', fc_geometry_properties = [wkbPolygon],
       fc_properties = [], fc_srs_name = None, fc_feature_count = 0\<rparr> \<noteq> []
   \<and> fc_feature_count \<lparr>fc_name = ''AX_Flurstueck'', fc_geometry_properties = [wkbPolygon],
       fc_properties = [], fc_srs_name = None, fc_feature_count = 0\<rparr> = 0
   \<and> lyr_gtype (TranslateNASSchema (\<lambda>s. Some s)
       \<lparr>fc_name = ''AX_Flurstueck'', fc_geometry_properties = [wkbPolygon],
        fc_properties = [], fc_srs_name = None, fc_feature_count = 0\<rparr>) = wkbUnknown
   \<and> lyr_gtype (TranslateNASSchema (\<lambda>s. Some s)
       \<lparr>fc_name = ''AX_Flurstueck'', fc_geometry_properties = [wkbPolygon, wkbPoint],
        fc_properties = [], fc_srs_name = None, fc_feature_count = 3\<rparr>) = wkbPolygon
   \<and> lyr_gtype (TranslateNASSchema (\<lambda>s. Some s)
       \<lparr>fc_name = ''AX_Person'', fc_geometry_properties = [],
        fc_properties = [], fc_srs_name = None, fc_feature_count = 3\<rparr>) = wkbNone"
  using TranslateNASSchema_geometry_type
          [of "\<lparr>fc_name = ''AX_Flurstueck'', fc_geometry_properties = [wkbPolygon],
                fc_properties = [], fc_srs_name = None, fc_feature_count = 0\<rparr>" "\<lambda>s. Some s"]
        TranslateNASSchema_geometry_type
          [of "\<lparr>fc_name = ''AX_Flurstueck'', fc_geometry_properties = [wkbPolygon, wkbPoint],
                fc_properties = [], fc_srs_name = None, fc_feature_count = 3\<rparr>" "\<lambda>s. Some s"]
        TranslateNASSchema_geometry_type
          [of "\<lparr>fc_name = ''AX_Person'', fc_geometry_properties = [],
                fc_properties = [], fc_srs_name = None, fc_feature_count = 3\<rparr>" "\<lambda>s. Some s"]
  by simp

text \<open>
  C6. For a feature class whose SRS name contains a colon, the handle is the part of the
  name after its last colon. The SRS name is replaced by the code of a table entry whose
  target is the handle, or whose target ends in an asterisk and is, without the asterisk,
  a prefix of the handle; it is kept when no entry matches. The spatial reference of the
  layer is what the construction from the resulting string gives, and when the
  construction fails the layer is made all the same, with no spatial reference.
\<close>

theorem TranslateNASSchema_srs:
  assumes "fc_srs_name cls = Some (pre @ CHR '':'' # h)" and "CHR '':'' \<notin> set h"
  shows "map_option tl (strrchr (pre @ CHR '':'' # h) CHR '':'') = Some h
       \<and> lyr_srs (TranslateNASSchema sfui cls) = sfui (urn_loop apszURNNames h (pre @ CHR '':'' # h))
       \<and> (\<forall>(target, code) \<in> set apszURNNames.
             target = h \<or> (last target = CHR ''*'' \<and> (\<exists>rest. h = butlast target @ rest)) \<longrightarrow>
             urn_loop apszURNNames h (pre @ CHR '':'' # h) = code)
       \<and> ((\<forall>(target, code) \<in> set apszURNNames. \<not> urn_matches target h) \<longrightarrow>
             urn_loop apszURNNames h (pre @ CHR '':'' # h) = pre @ CHR '':'' # h)
       \<and> (sfui (urn_loop apszURNNames h (pre @ CHR '':'' # h)) = None \<longrightarrow>
             TranslateNASSchema sfui cls =
               \<lparr>lyr_name = fc_name cls, lyr_srs = None,
                lyr_gtype = lyr_gtype (TranslateNASSchema sfui cls),
                lyr_fields = map translate_property (fc_properties cls)\<rparr>)"
proof -
  have s: "strrchr (pre @ CHR '':'' # h) CHR '':'' = Some (CHR '':'' # h)"
    using assms(2) by (rule strrchr_last)
  have srs: "lyr_srs (TranslateNASSchema sfui cls) = sfui (urn_loop apszURNNames h (pre @ CHR '':'' # h))"
    by (simp add: TranslateNASSchema_def Let_def assms(1) s)
  have m: "\<forall>(target, code) \<in> set apszURNNames.
             target = h \<or> (last target = CHR ''*'' \<and> (\<exists>rest. h = butlast target @ rest)) \<longrightarrow>
             urn_loop apszURNNames h (pre @ CHR '':'' # h) = code"
    using urn_loop_match by blast
  have n: "(\<forall>(target, code) \<in> set apszURNNames. \<not> urn_matches target h) \<longrightarrow>
             urn_loop apszURNNames h (pre @ CHR '':'' # h) = pre @ CHR '':'' # h"
    using urn_loop_no_match by blast
  have f: "sfui (urn_loop apszURNNames h (pre @ CHR '':'' # h)) = None \<longrightarrow>
             TranslateNASSchema sfui cls =
               \<lparr>lyr_name = fc_name cls, lyr_srs = None,
                lyr_gtype = lyr_gtype (TranslateNASSchema sfui cls),
                lyr_fields = map translate_property (fc_properties cls)\<rparr>"
    by (simp add: TranslateNASSchema_def Let_def assms(1) s)
  from s srs m n f show ?thesis by simp
qed


theorem TranslateNASSchema_srs_witness:
  "fc_srs_name \<lparr>fc_name = ''AX_Flurstueck'', fc_geometry_properties = [], fc_properties = [],
       fc_srs_name = Some ''urn:adv:crs:DE_DHDN_3GK2_NW177'', fc_feature_count = 1\<rparr> =
     Some (''urn:adv:crs'' @ CHR '':'' # ''DE_DHDN_3GK2_NW177'')
   \<and> CHR '':'' \<notin> set ''DE_DHDN_3GK2_NW177''
   \<and> lyr_srs (TranslateNASSchema (\<lambda>s. if s = ''EPSG:31466'' then Some (31466::nat) else None)
       \<lparr>fc_name = ''AX_Flurstueck'', fc_geometry_properties = [], fc_properties = [],
        fc_srs_name = Some ''urn:adv:crs:DE_DHDN_3GK2_NW177'', fc_feature_count = 1\<rparr>) = Some 31466
   \<and> fc_srs_name \<lparr>fc_name = ''AX_Flurstueck'', fc_geometry_properties = [], fc_properties = [],
       fc_srs_name = Some ''urn:adv:crs:XYZ'', fc_feature_count = 1\<rparr> =
     Some (''urn:adv:crs'' @ CHR '':'' # ''XYZ'')
   \<and> CHR '':'' \<notin> set ''XYZ''
   \<and> TranslateNASSchema (\<lambda>s. if s = ''EPSG:31466'' then Some (31466::nat) else None)
       \<lparr>fc_name = ''AX_Flurstueck'', fc_geometry_properties = [], fc_properties = [],
        fc_srs_name = Some ''urn:adv:crs:XYZ'', fc_feature_count = 1\<rparr> =
       \<lparr>lyr_name = ''AX_Flurstueck'', lyr_srs = None, lyr_gtype = wkbNone, lyr_fields = []\<rparr>"
proof -
  let ?sfui = "\<lambda>s. if s = ''EPSG:31466'' then Some (31466::nat) else None"
  let ?c1 = "\<lparr>fc_name = ''AX_Flurstueck'', fc_geometry_properties = [], fc_properties = [],
       fc_srs_name = Some ''urn:adv:crs:DE_DHDN_3GK2_NW177'', fc_feature_count = 1\<rparr>"
  let ?c2 = "\<lparr>fc_name = ''AX_Flurstueck'', fc_geometry_properties = [], fc_properties = [],
       fc_srs_name = Some ''urn:adv:crs:XYZ'', fc_feature_count = 1\<rparr>"
  have a1: "fc_srs_name ?c1 = Some (''urn:adv:crs'' @ CHR '':'' # ''DE_DHDN_3GK2_NW177'')" by simp
  have a2: "CHR '':'' \<notin> set ''DE_DHDN_3GK2_NW177''" by simp
  have b1: "fc_srs_name ?c2 = Some (''urn:adv:crs'' @ CHR '':'' # ''XYZ'')" by simp
  have b2: "CHR '':'' \<notin> set ''XYZ''" by simp
  have u1: "urn_loop apszURNNames ''DE_DHDN_3GK2_NW177'' (''urn:adv:crs'' @ CHR '':'' # ''DE_DHDN_3GK2_NW177'') =
              ''EPSG:31466''"
    by (simp add: apszURNNames_def EQUAL_def EQUALN_def tolower_def)
  have u2: "urn_loop apszURNNames ''XYZ'' (''urn:adv:crs'' @ CHR '':'' # ''XYZ'') = ''urn:adv:crs:XYZ''"
    by (simp add: apszURNNames_def EQUAL_def EQUALN_def tolower_def)
  have g: "lyr_gtype (TranslateNASSchema ?sfui ?c2) = wkbNone"
    by (simp add: TranslateNASSchema_def Let_def)
  from TranslateNASSchema_srs [OF a1 a2, of ?sfui]
  have r1: "lyr_srs (TranslateNASSchema ?sfui ?c1) = Some 31466"
    unfolding u1 by simp
  from TranslateNASSchema_srs [OF b1 b2, of ?sfui]
  have r2: "TranslateNASSchema ?sfui ?c2 =
       \<lparr>lyr_name = ''AX_Flurstueck'', lyr_srs = None, lyr_gtype = wkbNone, lyr_fields = []\<rparr>"
    unfolding u2 g by simp
  from a1 a2 b1 b2 r1 r2 show ?thesis by blast
qed

section \<open>Properties of the relation extraction\<close>

lemma psGMLId_identifier_values:
  "(if gf_gml_id_index f \<ge> 0 then GetProperty f (gf_gml_id_index f) else None) =
     (case identifier_values f of
        None \<Rightarrow> None
      | Some vs \<Rightarrow> Some (gf_properties f ! nat (gf_gml_id_index f)))"
  by (simp add: GetProperty_def identifier_values_def)

lemma identifier_values_Some:
  "identifier_values f = Some vs \<Longrightarrow>
     papszSubProperties (gf_properties f ! nat (gf_gml_id_index f)) = vs"
  by (auto simp add: identifier_values_def split: if_splits)

lemma ob_step:
  assumes "parse ob = Some (name, v)"
  shows "(case (if gf_gml_id_index f \<ge> 0 then GetProperty f (gf_gml_id_index f) else None) of
            None \<Rightarrow> l
          | Some p \<Rightarrow>
              if STARTS_WITH_CI v ''urn:adv:oid:'' \<and> nSubProperties p = 1
              then add l (papszSubProperties p ! 0) name (drop 12 v)
              else l) =
         foldl (\<lambda>l r. add l (rel_source r) (rel_name r) (rel_target r)) l (relation_of parse f ob)"
proof (cases "identifier_values f")
  case None
  then show ?thesis
    by (simp add: psGMLId_identifier_values relation_of_def assms)
next
  case (Some vs)
  note vs = identifier_values_Some [OF Some]
  have len: "length ''urn:adv:oid:'' = 12" by simp
  have low: "map tolower (take 12 ''urn:adv:oid:'') = ''urn:adv:oid:''"
    by (simp add: tolower_def)
  have pre: "STARTS_WITH_CI v ''urn:adv:oid:'' = (map tolower (take 12 v) = ''urn:adv:oid:'')"
    unfolding STARTS_WITH_CI_def EQUALN_def len low by (rule refl)
  show ?thesis
  proof (cases vs)
    case Nil
    with Some vs show ?thesis
      by (simp add: psGMLId_identifier_values relation_of_def assms nSubProperties_def)
  next
    case (Cons a as)
    with Some vs show ?thesis
      by (cases as) (simp_all add: psGMLId_identifier_values relation_of_def assms nSubProperties_def pre)
  qed
qed

lemma ob_loop_relations:
  assumes "\<forall>ob\<in>set obs. parse ob \<noteq> None"
  shows "ob_loop parse add f obs l =
           Inr (foldl (\<lambda>l r. add l (rel_source r) (rel_name r) (rel_target r)) l
                  (concat (map (relation_of parse f) obs)))"
  using assms
proof (induction obs arbitrary: l)
  case Nil
  then show ?case by simp
next
  case (Cons ob obs)
  then obtain name v where p: "parse ob = Some (name, v)" by auto
  from Cons have rest: "\<forall>ob\<in>set obs. parse ob \<noteq> None" by simp
  show ?case
    by (simp add: p Let_def ob_step [where parse = parse and f = f, OF p] Cons.IH [OF rest])
qed

lemma feature_loop_relations:
  assumes "\<forall>f\<in>set fs. \<forall>ob\<in>set (gf_ob_properties f). parse ob \<noteq> None"
  shows "feature_loop parse add fs l =
           Inr (foldl (\<lambda>l r. add l (rel_source r) (rel_name r) (rel_target r)) l
                  (expected_relations parse fs))"
  using assms
proof (induction fs arbitrary: l)
  case Nil
  then show ?case by (simp add: expected_relations_def)
next
  case (Cons f fs)
  then have here: "\<forall>ob\<in>set (gf_ob_properties f). parse ob \<noteq> None"
    and rest: "\<forall>f\<in>set fs. \<forall>ob\<in>set (gf_ob_properties f). parse ob \<noteq> None" by simp_all
  show ?case
    using Cons.IH [OF rest]
    by (simp add: ob_loop_relations [OF here] expected_relations_def)
qed

text \<open>
  C4. When every auxiliary property of every feature parses into a name and a value,
  the extraction adds to the relation layer exactly the records of the specification,
  feature by feature and property by property: one record for a property whose value
  starts with the object-identifier prefix when the feature has exactly one identifier
  value, made of that identifier, the parsed name and the value without the prefix, and
  no record otherwise. The layer is marked as populated once, after the last record.
\<close>

theorem PopulateRelations_relations:
  assumes "\<forall>f\<in>set fs. \<forall>ob\<in>set (gf_ob_properties f). parse ob \<noteq> None"
  shows "PopulateRelations parse AddRelation MarkRelationsPopulated fs l =
           Inr (MarkRelationsPopulated
                  (foldl (\<lambda>l r. AddRelation l (rel_source r) (rel_name r) (rel_target r)) l
                     (expected_relations parse fs)))"
  by (simp add: PopulateRelations_def feature_loop_relations [OF assms])


theorem PopulateRelations_relations_witness:
  "(\<lambda>ob. Some (takeWhile (\<lambda>c. c \<noteq> CHR ''='') ob, tl (dropWhile (\<lambda>c. c \<noteq> CHR ''='') ob)))
       ''istTeilVon=urn:adv:oid:DENW2'' = Some (''istTeilVon'', ''urn:adv:oid:DENW2'')
   \<and> (\<lambda>ob. Some (takeWhile (\<lambda>c. c \<noteq> CHR ''='') ob, tl (dropWhile (\<lambda>c. c \<noteq> CHR ''='') ob)))
       ''art=1000'' = Some (''art'', ''1000'')
   \<and> (\<lambda>ob. Some (takeWhile (\<lambda>c. c \<noteq> CHR ''='') ob, tl (dropWhile (\<lambda>c. c \<noteq> CHR ''='') ob)))
       ''gehoertZu=urn:adv:oid:DENW5'' = Some (''gehoertZu'', ''urn:adv:oid:DENW5'')
   \<and> PopulateRelations
       (\<lambda>ob. Some (takeWhile (\<lambda>c. c \<noteq> CHR ''='') ob, tl (dropWhile (\<lambda>c. c \<noteq> CHR ''='') ob)))
       (\<lambda>(rs, k) s n t. (rs @ [\<lparr>rel_source = s, rel_name = n, rel_target = t\<rparr>], k))
       (\<lambda>(rs, k). (rs, Suc k))
       [\<lparr>gf_gml_id_index = 0, gf_properties = [\<lparr>papszSubProperties = [''DENW1'']\<rparr>],
          gf_ob_properties = [''istTeilVon=urn:adv:oid:DENW2'', ''art=1000'']\<rparr>,
        \<lparr>gf_gml_id_index = 0, gf_properties = [\<lparr>papszSubProperties = [''DENW3'', ''DENW4'']\<rparr>],
          gf_ob_properties = [''gehoertZu=urn:adv:oid:DENW5'']\<rparr>]
       ([], 0::nat) =
     Inr ([\<lparr>rel_source = ''DENW1'', rel_name = ''istTeilVon'', rel_target = ''DENW2''\<rparr>], 1)"
  using PopulateRelations_relations
    [where parse = "\<lambda>ob. Some (takeWhile (\<lambda>c. c \<noteq> CHR ''='') ob, tl (dropWhile (\<lambda>c. c \<noteq> CHR ''='') ob))"
       and AddRelation = "\<lambda>(rs, k) s n t. (rs @ [\<lparr>rel_source = s, rel_name = n, rel_target = t\<rparr>], k)"
       and MarkRelationsPopulated = "\<lambda>(rs, k). (rs, Suc k)"
       and fs = "[\<lparr>gf_gml_id_index = 0, gf_properties = [\<lparr>papszSubProperties = [''DENW1'']\<rparr>],
                   gf_ob_properties = [''istTeilVon=urn:adv:oid:DENW2'', ''art=1000'']\<rparr>,
                 \<lparr>gf_gml_id_index = 0, gf_properties = [\<lparr>papszSubProperties = [''DENW3'', ''DENW4'']\<rparr>],
                   gf_ob_properties = [''gehoertZu=urn:adv:oid:DENW5'']\<rparr>]"
       and l = "([], 0::nat)"]
  by (simp add: expected_relations_def relation_of_def identifier_values_def tolower_def)

section \<open>Properties of the layer list\<close>

lemma translate_loop_result:
  assumes "0 \<le> n" and "n \<le> int (length cs)" and "length papo = length cs + 1"
  shows "translate_loop sfui cs papo n =
           (take (nat n) papo
              @ map (\<lambda>c. Some (ClassLayer (TranslateNASSchema sfui c))) (drop (nat n) cs)
              @ [last papo],
            int (length cs))"
  using assms
proof (induction "length cs - nat n" arbitrary: n papo)
  case 0
  then have n: "nat n = length cs" by simp
  with 0 have "n = int (length cs)" by simp
  moreover have "take (length cs) papo @ [last papo] = papo"
  proof -
    have "papo \<noteq> []" using 0(4) by auto
    moreover have "take (length cs) papo = butlast papo"
      using 0(4) by (simp add: butlast_conv_take)
    ultimately show ?thesis by simp
  qed
  ultimately show ?case
    by (subst translate_loop.simps) (simp add: n)
next
  case (Suc k)
  then have lt: "nat n < length cs" and lt': "n < int (length cs)" by simp_all
  let ?x = "Some (ClassLayer (TranslateNASSchema sfui (cs ! nat n)))"
  let ?papo = "papo[nat n := ?x]"
  have k: "k = length cs - nat (n + 1)" using Suc(2,3) by simp
  have nn: "nat (n + 1) = Suc (nat n)" using Suc(3) by simp
  have IH: "translate_loop sfui cs ?papo (n + 1) =
           (take (nat (n + 1)) ?papo
              @ map (\<lambda>c. Some (ClassLayer (TranslateNASSchema sfui c))) (drop (nat (n + 1)) cs)
              @ [last ?papo],
            int (length cs))"
    using Suc(1) [OF k] Suc(3,4,5) lt' by simp
  have t: "take (Suc (nat n)) ?papo = take (nat n) papo @ [?x]"
    using lt Suc(5) by (simp add: take_Suc_conv_app_nth)
  have ne: "papo \<noteq> []" using Suc(5) by auto
  have l: "last ?papo = last papo"
    using lt Suc(5) by (simp add: last_list_update [OF ne])
  have d: "drop (nat n) cs = cs ! nat n # drop (Suc (nat n)) cs"
    using lt by (simp add: Cons_nth_drop_Suc)
  show ?case
    using lt' by (subst translate_loop.simps) (simp add: IH nn t l d)
qed

lemma translate_loop_initial:
  "translate_loop sfui cs (replicate (length cs + 1) None) 0 =
     (map (\<lambda>c. Some (ClassLayer (TranslateNASSchema sfui c))) cs @ [None], int (length cs))"
  using translate_loop_result [of 0 cs "replicate (length cs + 1) None" sfui]
  by simp

lemma lyr_name_TranslateNASSchema:
  "lyr_name (TranslateNASSchema sfui c) = fc_name c"
  by (simp add: TranslateNASSchema_def Let_def)

text \<open>
  \<^verbatim>\<open>Open\<close> returns \<^verbatim>\<open>FALSE\<close> in two cases and succeeds in every other; the last entry
  the loop has filled is never a null pointer.
\<close>

lemma Open_result:
  "Open sfui rd nm =
     (if \<not> rd_created rd then Inl ReaderNotInstantiated
      else if \<not> (rd_gfs_stat_ok rd \<and> \<not> rd_nas_newer rd \<and> rd_LoadClasses rd)
              \<and> \<not> rd_PrescanForSchema rd \<and> rd_last_error_failure rd
      then Inl SchemaScanFailed
      else Inr \<lparr>ds_papoLayers =
                 (if rd_classes rd \<noteq> [] \<and> EQUAL (fc_name (last (rd_classes rd))) ''Delete''
                  then map (\<lambda>c. Some (ClassLayer (TranslateNASSchema sfui c))) (butlast (rd_classes rd))
                         @ [Some RelationLayer,
                            Some (ClassLayer (TranslateNASSchema sfui (last (rd_classes rd))))]
                  else map (\<lambda>c. Some (ClassLayer (TranslateNASSchema sfui c))) (rd_classes rd)
                         @ [Some RelationLayer]),
                ds_nLayers = int (length (rd_classes rd)) + 1,
                ds_pszName = nm\<rparr>)"
proof (cases "rd_classes rd" rule: rev_cases)
  case Nil
  show ?thesis
    unfolding Open_def translate_loop_initial using Nil
    by (simp add: Let_def)
next
  case (snoc bs c)
  let ?f = "\<lambda>c. Some (ClassLayer (TranslateNASSchema sfui c))"
  have n: "(map ?f bs @ [?f c] @ [None]) ! length bs = ?f c"
    by (simp add: nth_append)
  have u1: "(map ?f bs @ [?f c, None])[Suc (length bs) := x] = map ?f bs @ [?f c, x]" for x
    by (simp add: list_update_append)
  have u2: "(map ?f bs @ [y, x])[length bs := z] = map ?f bs @ [z, x]" for x y z
    by (simp add: list_update_append)
  show ?thesis
    unfolding Open_def translate_loop_initial using snoc
    by (simp add: Let_def nth_append u1 u2 lyr_name_TranslateNASSchema nat_add_distrib)
qed


lemma Open_layers_by_class_name:
  assumes "Open sfui rd nm = Inr ds"
  shows "ds_nLayers ds = int (length (rd_classes rd)) + 1
       \<and> map (\<lambda>i. GetLayer ds (int i)) [0..<length (rd_classes rd) + 1] =
           (if rd_classes rd \<noteq> [] \<and> EQUAL (fc_name (last (rd_classes rd))) ''Delete''
            then map (\<lambda>c. Some (ClassLayer (TranslateNASSchema sfui c))) (butlast (rd_classes rd))
                   @ [Some RelationLayer,
                      Some (ClassLayer (TranslateNASSchema sfui (last (rd_classes rd))))]
            else map (\<lambda>c. Some (ClassLayer (TranslateNASSchema sfui c))) (rd_classes rd)
                   @ [Some RelationLayer])
       \<and> (\<forall>i. i < 0 \<or> ds_nLayers ds \<le> i \<longrightarrow> GetLayer ds i = None)"
proof -
  let ?expected =
    "if rd_classes rd \<noteq> [] \<and> EQUAL (fc_name (last (rd_classes rd))) ''Delete''
     then map (\<lambda>c. Some (ClassLayer (TranslateNASSchema sfui c))) (butlast (rd_classes rd))
            @ [Some RelationLayer,
               Some (ClassLayer (TranslateNASSchema sfui (last (rd_classes rd))))]
     else map (\<lambda>c. Some (ClassLayer (TranslateNASSchema sfui c))) (rd_classes rd)
            @ [Some RelationLayer]"
  from assms have ds: "ds = \<lparr>ds_papoLayers = ?expected,
      ds_nLayers = int (length (rd_classes rd)) + 1, ds_pszName = nm\<rparr>"
    unfolding Open_result by (auto split: if_splits)
  have n: "ds_nLayers ds = int (length (rd_classes rd)) + 1"
    by (subst ds) simp
  have p: "ds_papoLayers ds = ?expected"
    by (subst ds) simp
  have len: "length (ds_papoLayers ds) = length (rd_classes rd) + 1"
    unfolding p by simp
  have g: "GetLayer ds (int i) = ds_papoLayers ds ! i" if "i < length (rd_classes rd) + 1" for i
    using that by (simp add: GetLayer_def n)
  have "map (\<lambda>i. GetLayer ds (int i)) [0..<length (rd_classes rd) + 1] =
          map (\<lambda>i. ds_papoLayers ds ! i) [0..<length (rd_classes rd) + 1]"
    by (rule map_cong [OF refl]) (rule g, auto)
  also have "\<dots> = ds_papoLayers ds"
    unfolding len [symmetric] by (rule map_nth)
  finally have m: "map (\<lambda>i. GetLayer ds (int i)) [0..<length (rd_classes rd) + 1] = ?expected"
    unfolding p .
  have out: "\<forall>i. i < 0 \<or> ds_nLayers ds \<le> i \<longrightarrow> GetLayer ds i = None"
    by (simp add: GetLayer_def)
  from n m out show ?thesis by simp
qed

text \<open>
  C9. After a successful \<^verbatim>\<open>Open\<close> the layer count is the number of classes plus one, and
  the layers at the indices from 0 to the count are: the layers of the classes in order,
  followed by the relation layer; except when the last class layer is named Delete, in
  any mix of capital and small letters, where the relation layer is the last but one and
  the Delete layer stays last. \<^verbatim>\<open>GetLayer\<close> returns the null pointer for every index below
  0 and for every index from the layer count on.
\<close>

theorem Open_layers:
  assumes "Open sfui rd nm = Inr ds"
  shows "ds_nLayers ds = int (length (rd_classes rd)) + 1
       \<and> map (\<lambda>i. GetLayer ds (int i)) [0..<length (rd_classes rd) + 1] =
           (if rd_classes rd \<noteq> []
               \<and> EQUAL (GetName (ClassLayer (TranslateNASSchema sfui (last (rd_classes rd))))) ''Delete''
            then map (\<lambda>c. Some (ClassLayer (TranslateNASSchema sfui c))) (butlast (rd_classes rd))
                   @ [Some RelationLayer,
                      Some (ClassLayer (TranslateNASSchema sfui (last (rd_classes rd))))]
            else map (\<lambda>c. Some (ClassLayer (TranslateNASSchema sfui c))) (rd_classes rd)
                   @ [Some RelationLayer])
       \<and> (\<forall>i. i < 0 \<or> ds_nLayers ds \<le> i \<longrightarrow> GetLayer ds i = None)"
  using Open_layers_by_class_name [OF assms]
  by (simp add: lyr_name_TranslateNASSchema)

theorem Open_layers_witness:
  "Open (\<lambda>s. Some s)
     \<lparr>rd_created = True, rd_gfs_stat_ok = False, rd_nas_newer = False, rd_LoadClasses = False,
      rd_PrescanForSchema = True, rd_last_error_failure = False,
      rd_classes =
        [\<lparr>fc_name = ''AX_Flurstueck'', fc_geometry_properties = [], fc_properties = [],
           fc_srs_name = None, fc_feature_count = 1\<rparr>,
         \<lparr>fc_name = ''delete'', fc_geometry_properties = [], fc_properties = [],
           fc_srs_name = None, fc_feature_count = 1\<rparr>]\<rparr> ''x.xml'' =
     Inr \<lparr>ds_papoLayers =
            [Some (ClassLayer \<lparr>lyr_name = ''AX_Flurstueck'', lyr_srs = None, lyr_gtype = wkbNone,
                                lyr_fields = []\<rparr>),
             Some RelationLayer,
             Some (ClassLayer \<lparr>lyr_name = ''delete'', lyr_srs = None, lyr_gtype = wkbNone,
                                lyr_fields = []\<rparr>)],
          ds_nLayers = 3, ds_pszName = ''x.xml''\<rparr>
   \<and> map (\<lambda>i. GetLayer
         \<lparr>ds_papoLayers =
            [Some (ClassLayer \<lparr>lyr_name = ''AX_Flurstueck'', lyr_srs = None, lyr_gtype = wkbNone,
                                lyr_fields = []\<rparr>),
             Some RelationLayer,
             Some (ClassLayer \<lparr>lyr_name = ''delete'', lyr_srs = (None :: string option),
                                lyr_gtype = wkbNone, lyr_fields = []\<rparr>)],
          ds_nLayers = 3, ds_pszName = ''x.xml''\<rparr> (int i)) [0, 1, 2] =
       [Some (ClassLayer \<lparr>lyr_name = ''AX_Flurstueck'', lyr_srs = None, lyr_gtype = wkbNone,
                           lyr_fields = []\<rparr>),
        Some RelationLayer,
        Some (ClassLayer \<lparr>lyr_name = ''delete'', lyr_srs = None, lyr_gtype = wkbNone,
                           lyr_fields = []\<rparr>)]
   \<and> GetLayer
         \<lparr>ds_papoLayers =
            [Some (ClassLayer \<lparr>lyr_name = ''AX_Flurstueck'', lyr_srs = None, lyr_gtype = wkbNone,
                                lyr_fields = []\<rparr>),
             Some RelationLayer,
             Some (ClassLayer \<lparr>lyr_name = ''delete'', lyr_srs = (None :: string option),
                                lyr_gtype = wkbNone, lyr_fields = []\<rparr>)],
          ds_nLayers = 3, ds_pszName = ''x.xml''\<rparr> 3 = None"
proof -
  let ?rd = "\<lparr>rd_created = True, rd_gfs_stat_ok = False, rd_nas_newer = False, rd_LoadClasses = False,
      rd_PrescanForSchema = True, rd_last_error_failure = False,
      rd_classes =
        [\<lparr>fc_name = ''AX_Flurstueck'', fc_geometry_properties = [], fc_properties = [],
           fc_srs_name = None, fc_feature_count = 1\<rparr>,
         \<lparr>fc_name = ''delete'', fc_geometry_properties = [], fc_properties = [],
           fc_srs_name = None, fc_feature_count = 1\<rparr>]\<rparr>"
  let ?ds = "\<lparr>ds_papoLayers =
            [Some (ClassLayer \<lparr>lyr_name = ''AX_Flurstueck'', lyr_srs = None, lyr_gtype = wkbNone,
                                lyr_fields = []\<rparr>),
             Some RelationLayer,
             Some (ClassLayer \<lparr>lyr_name = ''delete'', lyr_srs = (None :: string option),
                                lyr_gtype = wkbNone, lyr_fields = []\<rparr>)],
          ds_nLayers = 3, ds_pszName = ''x.xml''\<rparr>"
  have d: "EQUAL ''delete'' ''Delete''"
    by (simp add: EQUAL_def tolower_def)
  have o: "Open (\<lambda>s. Some s) ?rd ''x.xml'' = Inr ?ds"
    unfolding Open_result by (simp add: d TranslateNASSchema_def Let_def)
  have u: "[0..<length (rd_classes ?rd) + 1] = [0, 1, 2]"
    by (simp add: upt_rec)
  from Open_layers [OF o] have
    "map (\<lambda>i. GetLayer ?ds (int i)) [0, 1, 2] =
       [Some (ClassLayer \<lparr>lyr_name = ''AX_Flurstueck'', lyr_srs = None, lyr_gtype = wkbNone,
                           lyr_fields = []\<rparr>),
        Some RelationLayer,
        Some (ClassLayer \<lparr>lyr_name = ''delete'', lyr_srs = None, lyr_gtype = wkbNone,
                           lyr_fields = []\<rparr>)]"
    and "GetLayer ?ds 3 = None"
    unfolding u by (simp_all add: d TranslateNASSchema_def Let_def)
  with o show ?thesis by simp
qed

end
